theory Spec2Isabelle
  imports Main "HOL-Library.AList" "HOL-Library.Sublist"
begin

section \<open>Python values and exceptions\<close>

text \<open>
  The exceptions that the modelled parts of \<^verbatim>\<open>main.py\<close> can meet. A remote failure of
  the Notion client is \<open>RemoteError\<close> with the client's message.
\<close>

datatype exn =
    IndexError
  | KeyError string
  | OverflowError
  | FileNotFoundError string
  | PermissionError string
  | NoSpaceError
  | JSONDecodeError
  | RemoteError string

text \<open>\<^verbatim>\<open>d.get(key, default)\<close> on a key that may be absent, and \<^verbatim>\<open>d[key]\<close>.\<close>

definition dict_get :: "'a option \<Rightarrow> 'a \<Rightarrow> 'a" where
  "dict_get v dflt = (case v of None \<Rightarrow> dflt | Some x \<Rightarrow> x)"

definition subscript :: "string \<Rightarrow> 'a option \<Rightarrow> exn + 'a" where
  "subscript key v = (case v of None \<Rightarrow> Inl (KeyError key) | Some x \<Rightarrow> Inr x)"

text \<open>\<^verbatim>\<open>str(n)\<close> for a non-negative integer.\<close>

definition digit_char :: "nat \<Rightarrow> char" where
  "digit_char d = ''0123456789'' ! d"

function str_nat :: "nat \<Rightarrow> string" where
  "str_nat n = (if n < 10 then [digit_char n] else str_nat (n div 10) @ [digit_char (n mod 10)])"
  by pat_completeness auto
termination
  by (relation "measure id") auto

declare str_nat.simps [simp del]

text \<open>Zero padding of \<^verbatim>\<open>strftime\<close> fields.\<close>

definition zero_pad :: "nat \<Rightarrow> nat \<Rightarrow> string" where
  "zero_pad width n = replicate (width - length (str_nat n)) (CHR ''0'') @ str_nat n"

section \<open>Dates and times\<close>

text \<open>
  A naive local \<^verbatim>\<open>datetime\<close>, as \<^verbatim>\<open>datetime.now()\<close> and
  \<^verbatim>\<open>datetime.fromtimestamp(os.path.getmtime(p))\<close> give it: its fields are those of a
  calendar date and a time of day, the month from 1 to 12. A \<^verbatim>\<open>timedelta\<close> is its
  total number of microseconds; a \<^verbatim>\<open>date\<close> is its proleptic Gregorian ordinal
  (\<^verbatim>\<open>date.toordinal()\<close>, 1 for 0001-01-01). The clock is read once for each call of a
  function of \<^verbatim>\<open>main.py\<close> and handed to it as \<open>now\<close>.
\<close>

record datetime =
  year :: nat
  month :: nat
  day :: nat
  hour :: nat
  minute :: nat
  second :: nat
  microsecond :: nat

definition is_leap :: "nat \<Rightarrow> bool" where
  "is_leap y = (y mod 4 = 0 \<and> (y mod 100 \<noteq> 0 \<or> y mod 400 = 0))"

definition days_before_year :: "nat \<Rightarrow> int" where
  "days_before_year y =
     (let p = int y - 1 in p * 365 + p div 4 - p div 100 + p div 400)"

definition days_before_month :: "nat \<Rightarrow> nat \<Rightarrow> int" where
  "days_before_month y m =
     [0, 31, 59, 90, 120, 151, 181, 212, 243, 273, 304, 334] ! (m - 1)
       + (if m > 2 \<and> is_leap y then 1 else 0)"

definition toordinal :: "datetime \<Rightarrow> int" where
  "toordinal t = days_before_year (year t) + days_before_month (year t) (month t) + int (day t)"

definition sub_datetime :: "datetime \<Rightarrow> datetime \<Rightarrow> int" where
  "sub_datetime a b =
     ((toordinal a - toordinal b) * 86400
        + (int (hour a) * 3600 + int (minute a) * 60 + int (second a))
        - (int (hour b) * 3600 + int (minute b) * 60 + int (second b))) * 1000000
       + (int (microsecond a) - int (microsecond b))"

definition timedelta_hours :: "int \<Rightarrow> int" where
  "timedelta_hours h = h * 3600 * 1000000"

definition timedelta_days :: "int \<Rightarrow> int" where
  "timedelta_days d = d * 86400 * 1000000"

text \<open>\<^verbatim>\<open>td.days\<close>: the whole days of a normalised timedelta, rounded towards minus infinity.\<close>

definition days :: "int \<Rightarrow> int" where
  "days td = td div 86400000000"

text \<open>
  \<^verbatim>\<open>d - timedelta(days=n)\<close> on a date raises \<^verbatim>\<open>OverflowError\<close> below
  \<^verbatim>\<open>date.min\<close>.
\<close>

definition date_minus_days :: "int \<Rightarrow> int \<Rightarrow> exn + int" where
  "date_minus_days d n = (if d - n < 1 then Inl OverflowError else Inr (d - n))"

text \<open>
  \<^verbatim>\<open>strftime\<close> with year, month and day, or hour, minute and second, between a
  separator; the year is written with four digits.
\<close>

definition strftime_Y_m_d :: "string \<Rightarrow> datetime \<Rightarrow> string" where
  "strftime_Y_m_d sep t =
     zero_pad 4 (year t) @ sep @ zero_pad 2 (month t) @ sep @ zero_pad 2 (day t)"

definition strftime_H_M_S :: "datetime \<Rightarrow> string" where
  "strftime_H_M_S t =
     zero_pad 2 (hour t) @ '':'' @ zero_pad 2 (minute t) @ '':'' @ zero_pad 2 (second t)"

section \<open>Records of the remote store\<close>

text \<open>
  The page objects the Notion client returns, typed after the keys \<^verbatim>\<open>main.py\<close> reads.
  Every key may be absent (\<open>None\<close>), a list may be empty, and a value that is present has
  the type the API documents for it. A date property holds the day of its start, or
  nothing when the task has no due date.
\<close>

datatype text_obj = TextObj (k_content: "string option")
datatype rich_text = RichText (k_text: "text_obj option")
datatype title_prop = TitleProp (k_title: "rich_text list option")
datatype relation_ref = RelationRef (k_id: "string option")
datatype relation_prop = RelationProp (k_relation: "relation_ref list option")
datatype status_val = StatusVal (k_name: "string option")
datatype status_prop = StatusProp (k_status: "status_val option")
datatype date_prop = DateProp (k_date: "int option")

record properties =
  p_Name :: "title_prop option"
  p_Project :: "relation_prop option"
  p_Status :: "status_prop option"
  p_Priority :: "status_prop option"
  p_Due :: "date_prop option"

record page =
  page_id :: "string option"
  page_url :: "string option"
  page_properties :: "properties option"

datatype response = Response (k_results: "page list option")

text \<open>The empty dictionary \<^verbatim>\<open>{}\<close> at the type of a properties object.\<close>

definition no_properties :: properties where
  "no_properties =
     \<lparr>p_Name = None, p_Project = None, p_Status = None, p_Priority = None, p_Due = None\<rparr>"

subsection \<open>Filters\<close>

text \<open>
  A filter is the dictionary \<^verbatim>\<open>main.py\<close> builds: a conjunction of property conditions,
  each naming its property and carrying one or more operators. The ISO text of a date
  (\<^verbatim>\<open>today.isoformat()\<close>) is kept as the day it denotes.
\<close>

datatype status_cond = st_does_not_equal string | st_equals string

datatype date_cond =
    dt_equals int
  | dt_on_or_before int
  | dt_on_or_after int
  | dt_before int
  | dt_is_empty bool

datatype condition =
    StatusCond string "status_cond list"
  | DateCond string "date_cond list"

datatype notion_filter = And "condition list"

record query_request =
  database_id :: "string option"
  filter_arg :: "notion_filter option"
  properties_arg :: "string list option"

type_synonym remote = "query_request \<Rightarrow> exn + response"

subsection \<open>What the remote store answers\<close>

text \<open>
  Modelled from the spec: the remote store itself is an external service, reached only
  through \<^verbatim>\<open>notion.databases.query\<close>. Section 6 of the specification names its filter
  operators and section 4.2 gives the meaning of the five filters; several operators in
  one date condition hold together. A store that holds \<open>pages\<close> under the database
  identifier \<open>db\<close> answers a query with the pages that satisfy the filter, in their
  stored order.
\<close>

definition status_of :: "page \<Rightarrow> string \<Rightarrow> string option" where
  "status_of pg prop =
     (case page_properties pg of
        None \<Rightarrow> None
      | Some ps \<Rightarrow>
          (case (if prop = ''Status'' then p_Status ps
                 else if prop = ''Priority'' then p_Priority ps else None) of
             None \<Rightarrow> None
           | Some sp \<Rightarrow> (case k_status sp of None \<Rightarrow> None | Some sv \<Rightarrow> k_name sv)))"

definition date_of :: "page \<Rightarrow> string \<Rightarrow> int option" where
  "date_of pg prop =
     (case page_properties pg of
        None \<Rightarrow> None
      | Some ps \<Rightarrow>
          (case (if prop = ''Due'' then p_Due ps else None) of
             None \<Rightarrow> None
           | Some dp \<Rightarrow> k_date dp))"

fun holds_status :: "string option \<Rightarrow> status_cond \<Rightarrow> bool" where
  "holds_status v (st_does_not_equal x) = (v \<noteq> Some x)"
| "holds_status v (st_equals x) = (v = Some x)"

fun holds_date :: "int option \<Rightarrow> date_cond \<Rightarrow> bool" where
  "holds_date v (dt_equals d) = (case v of None \<Rightarrow> False | Some x \<Rightarrow> x = d)"
| "holds_date v (dt_on_or_before d) = (case v of None \<Rightarrow> False | Some x \<Rightarrow> x \<le> d)"
| "holds_date v (dt_on_or_after d) = (case v of None \<Rightarrow> False | Some x \<Rightarrow> d \<le> x)"
| "holds_date v (dt_before d) = (case v of None \<Rightarrow> False | Some x \<Rightarrow> x < d)"
| "holds_date v (dt_is_empty b) = ((v = None) = b)"

fun holds :: "page \<Rightarrow> condition \<Rightarrow> bool" where
  "holds pg (StatusCond prop cs) = list_all (holds_status (status_of pg prop)) cs"
| "holds pg (DateCond prop cs) = list_all (holds_date (date_of pg prop)) cs"

fun matches :: "notion_filter \<Rightarrow> page \<Rightarrow> bool" where
  "matches (And cs) pg = list_all (holds pg) cs"

definition notion_store :: "string \<Rightarrow> page list \<Rightarrow> remote" where
  "notion_store db pages req =
     (if database_id req = Some db
      then Inr (Response (Some (case filter_arg req of
                                  None \<Rightarrow> pages
                                | Some f \<Rightarrow> filter (matches f) pages)))
      else Inl (RemoteError ''Could not find database''))"

section \<open>The process and its surroundings\<close>

text \<open>
  A task record is the tuple \<^verbatim>\<open>(task_name, task_url, project_id, status)\<close> of
  \<^verbatim>\<open>process_task\<close>; \<open>project_id\<close> is \<open>None\<close> when the task has no project.
\<close>

type_synonym task = "string \<times> string \<times> string option \<times> string"

text \<open>
  A log record is its level and the parts of the f-string that made its message: literal
  text and the values interpolated, left unformatted.
\<close>

datatype level = DEBUG | INFO | ERROR

datatype fpart = S string | N nat | E exn | T "task list"

record projects_info =
  generated_at :: datetime
  projects :: "(string \<times> string) list"

datatype file_data = Text string | Json projects_info

record file_entry =
  mtime :: datetime
  data :: file_data

text \<open>
  The state the program acts on: the files by path, in directory order; the room left
  on the disk for report text; the paths that \<^verbatim>\<open>os.remove\<close> refuses; the log; and the
  requests sent to the remote store so far.
\<close>

record world =
  files :: "(string \<times> file_entry) list"
  disk_free :: nat
  undeletable :: "string list"
  log :: "(level \<times> fpart list) list"
  issued :: "query_request list"

text \<open>The configuration: the client and the two database identifiers of the environment.\<close>

record app_context =
  notion :: remote
  NOTION_TASKS_DB :: "string option"
  NOTION_PROJECTS_DB :: "string option"

definition logger :: "level \<Rightarrow> fpart list \<Rightarrow> world \<Rightarrow> world" where
  "logger lv msg w = w\<lparr>log := log w @ [(lv, msg)]\<rparr>"

definition databases_query :: "app_context \<Rightarrow> query_request \<Rightarrow> world \<Rightarrow> (exn + response) \<times> world" where
  "databases_query ctx req w = (notion ctx req, w\<lparr>issued := issued w @ [req]\<rparr>)"

text \<open>
  A statement either returns a value or raises, and leaves a state behind in both cases.
\<close>

type_synonym 'a outcome = "(exn + 'a) \<times> world"

definition and_then :: "'a outcome \<Rightarrow> ('a \<Rightarrow> world \<Rightarrow> 'b outcome) \<Rightarrow> 'b outcome" where
  "and_then m k = (case m of (Inl e, w) \<Rightarrow> (Inl e, w) | (Inr x, w) \<Rightarrow> k x w)"

definition bind_exn :: "exn + 'a \<Rightarrow> ('a \<Rightarrow> exn + 'b) \<Rightarrow> exn + 'b" where
  "bind_exn m k = (case m of Inl e \<Rightarrow> Inl e | Inr x \<Rightarrow> k x)"

text \<open>A \<^verbatim>\<open>for\<close> loop whose body may raise: the first exception ends it.\<close>

fun for_each :: "('a \<Rightarrow> world \<Rightarrow> unit outcome) \<Rightarrow> 'a list \<Rightarrow> world \<Rightarrow> unit outcome" where
  "for_each body [] w = (Inr (), w)"
| "for_each body (x # xs) w =
     (case body x w of
        (Inl e, w1) \<Rightarrow> (Inl e, w1)
      | (Inr u, w1) \<Rightarrow> for_each body xs w1)"

subsection \<open>Paths\<close>

definition os_path_join :: "string \<Rightarrow> string \<Rightarrow> string" where
  "os_path_join a b = a @ ''/'' @ b"

definition TARGET_DIR :: string where
  "TARGET_DIR = ''target''"

definition PROJECTS_JSON_FILE :: string where
  "PROJECTS_JSON_FILE = os_path_join TARGET_DIR ''notion-projects.json''"

definition REPORT_FILE_MD :: string where
  "REPORT_FILE_MD = os_path_join TARGET_DIR ''tasks_report.md''"

definition REPORT_FILE_TXT :: string where
  "REPORT_FILE_TXT = os_path_join TARGET_DIR ''tasks_report.txt''"

subsection \<open>File operations\<close>

definition os_path_exists :: "string \<Rightarrow> world \<Rightarrow> bool" where
  "os_path_exists p w = (map_of (files w) p \<noteq> None)"

definition getmtime :: "string \<Rightarrow> world \<Rightarrow> exn + datetime" where
  "getmtime p w =
     (case map_of (files w) p of None \<Rightarrow> Inl (FileNotFoundError p) | Some f \<Rightarrow> Inr (mtime f))"

definition os_remove :: "string \<Rightarrow> world \<Rightarrow> exn + world" where
  "os_remove p w =
     (if map_of (files w) p = None then Inl (FileNotFoundError p)
      else if p \<in> set (undeletable w) then Inl (PermissionError p)
      else Inr (w\<lparr>files := AList.delete p (files w)\<rparr>))"

text \<open>\<^verbatim>\<open>shutil.move\<close> of a file within the directory: a rename, which keeps the file's
  modification time and replaces a file already at the destination.\<close>

definition shutil_move :: "string \<Rightarrow> string \<Rightarrow> world \<Rightarrow> unit outcome" where
  "shutil_move src dst w =
     (case map_of (files w) src of
        None \<Rightarrow> (Inl (FileNotFoundError src), w)
      | Some f \<Rightarrow> (Inr (), w\<lparr>files := AList.update dst f (AList.delete src (files w))\<rparr>))"

text \<open>
  \<^verbatim>\<open>glob.glob\<close> for a pattern of literal characters and \<^verbatim>\<open>*\<close>; the star stays
  within one path component. The paths come in directory order.
\<close>

function fnmatch :: "string \<Rightarrow> string \<Rightarrow> bool" where
  "fnmatch [] s = (s = [])"
| "fnmatch (c # pat) s =
     (if c = CHR ''*''
      then fnmatch pat s \<or> (case s of [] \<Rightarrow> False | x # xs \<Rightarrow> x \<noteq> CHR ''/'' \<and> fnmatch (c # pat) xs)
      else (case s of [] \<Rightarrow> False | x # xs \<Rightarrow> x = c \<and> fnmatch pat xs))"
  by pat_completeness auto
termination
  by (relation "measure (\<lambda>(pat, s). length pat + length s)") auto

definition glob_glob :: "string \<Rightarrow> world \<Rightarrow> string list" where
  "glob_glob pattern w = filter (fnmatch pattern) (map fst (files w))"

text \<open>
  \<^verbatim>\<open>open(p, "w")\<close> creates the file or empties it; \<^verbatim>\<open>f.write(s)\<close> appends \<open>s\<close>, or
  raises when the disk has no room for it. Every write is taken to reach the disk at once.
  Only the text of the reports is counted against the room on the disk; the project cache
  is stored as the value \<^verbatim>\<open>json.load\<close> reads back, not as its text.
\<close>

definition open_w :: "string \<Rightarrow> datetime \<Rightarrow> world \<Rightarrow> world" where
  "open_w p now w = w\<lparr>files := AList.update p \<lparr>mtime = now, data = Text []\<rparr> (files w)\<rparr>"

definition append_text :: "datetime \<Rightarrow> string \<Rightarrow> file_entry \<Rightarrow> file_entry" where
  "append_text now s f =
     \<lparr>mtime = now, data = (case data f of Text old \<Rightarrow> Text (old @ s) | Json j \<Rightarrow> Json j)\<rparr>"

definition file_write :: "string \<Rightarrow> datetime \<Rightarrow> string \<Rightarrow> world \<Rightarrow> unit outcome" where
  "file_write p now s w =
     (if length s \<le> disk_free w
      then (Inr (), w\<lparr>files := AList.map_entry p (append_text now s) (files w),
                       disk_free := disk_free w - length s\<rparr>)
      else (Inl NoSpaceError, w))"

section \<open>Archive cleanup\<close>

text \<open>The body of the inner loop of \<^verbatim>\<open>cleanup_old_files\<close>, for one path of the listing.\<close>

definition cleanup_file :: "datetime \<Rightarrow> string \<Rightarrow> world \<Rightarrow> unit outcome" where
  "cleanup_file current_time file_path w =
     (case getmtime file_path w of
        Inl e \<Rightarrow> (Inl e, w)
      | Inr file_time \<Rightarrow>
          if days (sub_datetime current_time file_time) > 7
          then (case os_remove file_path w of
                  Inr w1 \<Rightarrow> (Inr (), logger INFO [S ''Deleted old file: '', S file_path] w1)
                | Inl e \<Rightarrow>
                    (Inr (), logger ERROR [S ''Error deleting file '', S file_path, S '': '', E e] w))
          else (Inr (), w))"

definition cleanup_old_files :: "datetime \<Rightarrow> world \<Rightarrow> unit outcome" where
  "cleanup_old_files current_time w =
     for_each (\<lambda>file_pattern w1. for_each (cleanup_file current_time) (glob_glob file_pattern w1) w1)
       [TARGET_DIR @ ''/tasks_report_*.md'', TARGET_DIR @ ''/tasks_report_*.txt''] w"

section \<open>The project cache\<close>

text \<open>The value \<^verbatim>\<open>project["properties"]["Name"]["title"][0]["text"]["content"]\<close>.\<close>

definition project_name :: "properties \<Rightarrow> exn + string" where
  "project_name props =
     bind_exn (subscript ''Name'' (p_Name props)) (\<lambda>name_prop.
     bind_exn (subscript ''title'' (k_title name_prop)) (\<lambda>title.
     case title of
       [] \<Rightarrow> Inl IndexError
     | first # rest \<Rightarrow>
         bind_exn (subscript ''text'' (k_text first)) (\<lambda>text.
         subscript ''content'' (k_content text))))"

text \<open>
  The dictionary comprehension over the results: the condition, then the key, then the
  value of each entry; a later entry with the same identifier replaces the earlier name.
\<close>

fun project_names :: "page list \<Rightarrow> (string \<times> string) list \<Rightarrow> exn + (string \<times> string) list" where
  "project_names [] acc = Inr acc"
| "project_names (project # rest) acc =
     bind_exn (subscript ''properties'' (page_properties project)) (\<lambda>props.
       if p_Name props = None then project_names rest acc
       else
         bind_exn (subscript ''id'' (page_id project)) (\<lambda>key.
         bind_exn (project_name props) (\<lambda>val.
         project_names rest (AList.update key val acc))))"

definition refresh_projects_info :: "app_context \<Rightarrow> datetime \<Rightarrow> world \<Rightarrow> unit outcome" where
  "refresh_projects_info ctx now w =
     (let fetch =
        (\<lambda>w0. and_then
           (databases_query ctx
              \<lparr>database_id = NOTION_PROJECTS_DB ctx, filter_arg = None, properties_arg = None\<rparr>
              (logger INFO [S ''Fetching projects from Notion API...''] w0))
           (\<lambda>projects_data w1.
              case project_names (dict_get (k_results projects_data) []) [] of
                Inl e \<Rightarrow> (Inl e, w1)
              | Inr projs \<Rightarrow>
                  (Inr (),
                   logger INFO [S ''Projects info refreshed.'']
                     (w1\<lparr>files :=
                           AList.update PROJECTS_JSON_FILE
                             \<lparr>mtime = now,
                              data = Json \<lparr>generated_at = now, projects = projs\<rparr>\<rparr>
                             (files w1)\<rparr>))))
      in case map_of (files w) PROJECTS_JSON_FILE of
           None \<Rightarrow> fetch w
         | Some f \<Rightarrow>
             if sub_datetime now (mtime f) < timedelta_hours 24
             then (Inr (), logger INFO [S ''Project info is up to date.''] w)
             else fetch w)"

section \<open>The task classifier\<close>

subsection \<open>The five filters of \<^verbatim>\<open>get_tasks\<close>\<close>

definition high_priority_filter :: "int \<Rightarrow> notion_filter" where
  "high_priority_filter today =
     And [StatusCond ''Status'' [st_does_not_equal ''Done''],
          StatusCond ''Priority'' [st_equals ''High''],
          DateCond ''Due'' [dt_on_or_before today]]"

definition due_today_filter :: "int \<Rightarrow> notion_filter" where
  "due_today_filter today =
     And [StatusCond ''Status'' [st_does_not_equal ''Done''],
          DateCond ''Due'' [dt_equals today]]"

definition overdue_filter :: "int \<Rightarrow> int \<Rightarrow> notion_filter" where
  "overdue_filter today last_week =
     And [StatusCond ''Status'' [st_does_not_equal ''Done''],
          DateCond ''Due'' [dt_on_or_before today, dt_on_or_after last_week]]"

definition no_due_date_filter :: notion_filter where
  "no_due_date_filter =
     And [StatusCond ''Status'' [st_does_not_equal ''Done''],
          DateCond ''Due'' [dt_is_empty True]]"

definition older_overdue_filter :: "int \<Rightarrow> notion_filter" where
  "older_overdue_filter last_week =
     And [StatusCond ''Status'' [st_does_not_equal ''Done''],
          DateCond ''Due'' [dt_before last_week]]"

subsection \<open>Normalising one record\<close>

text \<open>The \<^verbatim>\<open>try\<close> body of \<^verbatim>\<open>process_task\<close>; only the index \<^verbatim>\<open>[0]\<close> can raise.\<close>

definition process_task_body :: "page \<Rightarrow> exn + task" where
  "process_task_body task =
     (let properties = dict_get (page_properties task) no_properties in
      case dict_get (k_title (dict_get (p_Name properties) (TitleProp None))) [RichText None] of
        [] \<Rightarrow> Inl IndexError
      | first # others \<Rightarrow>
          (let task_name =
                 dict_get (k_content (dict_get (k_text first) (TextObj None))) ''Unknown Task'';
               task_url = dict_get (page_url task) [];
               project_relation =
                 dict_get (k_relation (dict_get (p_Project properties) (RelationProp None))) [];
               project_id = (case project_relation of [] \<Rightarrow> None | r # rs \<Rightarrow> k_id r);
               status =
                 dict_get
                   (k_name (dict_get (k_status (dict_get (p_Status properties) (StatusProp None)))
                              (StatusVal None)))
                   ''Unknown''
           in Inr (task_name, task_url, project_id, status)))"

definition process_task :: "page \<Rightarrow> world \<Rightarrow> task option \<times> world" where
  "process_task task w =
     (case process_task_body task of
        Inr t \<Rightarrow> (Some t, w)
      | Inl e \<Rightarrow> (None, logger ERROR [S ''Error processing task: '', E e] w))"

text \<open>
  The comprehension \<^verbatim>\<open>[task for task in (process_task(t) for t in results) if task]\<close>:
  the records in order, the dropped ones left out.
\<close>

fun process_all :: "page list \<Rightarrow> world \<Rightarrow> task list \<times> world" where
  "process_all [] w = ([], w)"
| "process_all (t # ts) w =
     (case process_task t w of
        (r, w1) \<Rightarrow>
          (case process_all ts w1 of
             (rs, w2) \<Rightarrow> ((case r of None \<Rightarrow> rs | Some x \<Rightarrow> x # rs), w2)))"

subsection \<open>The five guarded queries\<close>

text \<open>
  The three \<^verbatim>\<open>try\<close> blocks that fetch a sequence of records differ in their filter,
  their property list and the words of their messages; so do the two that fetch a count.
  A block that fails leaves its variable at its initial value.
\<close>

definition fetch_records ::
  "app_context \<Rightarrow> notion_filter \<Rightarrow> string list \<Rightarrow> string \<Rightarrow> world \<Rightarrow> task list \<times> world" where
  "fetch_records ctx flt props label w =
     (case databases_query ctx
             \<lparr>database_id = NOTION_TASKS_DB ctx, filter_arg = Some flt,
              properties_arg = Some props\<rparr> w of
        (Inl e, w1) \<Rightarrow>
          ([], logger ERROR [S (''Error fetching '' @ label @ '' tasks: ''), E e] w1)
      | (Inr found, w1) \<Rightarrow>
          (case process_all (dict_get (k_results found) []) w1 of
             (tasks, w2) \<Rightarrow>
               (tasks,
                logger INFO [S ''Found '', N (length tasks), S ('' '' @ label @ '' tasks'')] w2)))"

definition fetch_count ::
  "app_context \<Rightarrow> notion_filter \<Rightarrow> string list \<Rightarrow> string \<Rightarrow> string \<Rightarrow> world \<Rightarrow> nat \<times> world" where
  "fetch_count ctx flt props found_label error_label w =
     (case databases_query ctx
             \<lparr>database_id = NOTION_TASKS_DB ctx, filter_arg = Some flt,
              properties_arg = Some props\<rparr> w of
        (Inl e, w1) \<Rightarrow>
          (0, logger ERROR [S (''Error fetching '' @ error_label @ '': ''), E e] w1)
      | (Inr found, w1) \<Rightarrow>
          (let n = length (dict_get (k_results found) [])
           in (n, logger INFO [S ''Found '', N n, S ('' '' @ found_label)] w1)))"

type_synonym buckets = "task list \<times> task list \<times> task list \<times> nat \<times> nat"

definition get_tasks_body :: "app_context \<Rightarrow> datetime \<Rightarrow> world \<Rightarrow> buckets outcome" where
  "get_tasks_body ctx now w =
     (let today = toordinal now in
      case date_minus_days today 7 of
        Inl e \<Rightarrow> (Inl e, w)
      | Inr last_week \<Rightarrow>
          (case fetch_records ctx (high_priority_filter today)
                  [''Name'', ''Project'', ''Due'', ''Status'', ''Priority''] ''high priority'' w of
             (high_priority, w1) \<Rightarrow>
          (case fetch_records ctx (due_today_filter today)
                  [''Name'', ''Project'', ''Due'', ''Status''] ''due today'' w1 of
             (due_today, w2) \<Rightarrow>
          (case fetch_records ctx (overdue_filter today last_week)
                  [''Name'', ''Project'', ''Due'', ''Status''] ''overdue'' w2 of
             (overdue, w3) \<Rightarrow>
          (case fetch_count ctx no_due_date_filter
                  [''Name'', ''Project'', ''Due'', ''Status'']
                  ''tasks with no due date'' ''tasks with no due date'' w3 of
             (no_due_date_count, w4) \<Rightarrow>
          (case fetch_count ctx (older_overdue_filter last_week)
                  [''Name'', ''Project'', ''Due'', ''Status'']
                  ''tasks overdue for more than 7 days'' ''older overdue tasks'' w4 of
             (older_overdue_count, w5) \<Rightarrow>
               (Inr (high_priority, due_today, overdue, no_due_date_count, older_overdue_count),
                logger INFO [S ''Tasks overdue for more than 7 days: '', N older_overdue_count]
               (logger INFO [S ''Tasks with no due date: '', N no_due_date_count]
               (logger INFO [S ''Overdue tasks: '', T overdue]
               (logger INFO [S ''Due today tasks: '', T due_today]
               (logger INFO [S ''High priority tasks: '', T high_priority] w5)))))))))))"

text \<open>The outer handler: whatever the body raises is logged and answered with nothing.\<close>

definition get_tasks :: "app_context \<Rightarrow> datetime \<Rightarrow> world \<Rightarrow> buckets \<times> world" where
  "get_tasks ctx now w =
     (case get_tasks_body ctx now (logger INFO [S ''Fetching tasks from Notion API...''] w) of
        (Inr result, w1) \<Rightarrow> (result, w1)
      | (Inl e, w1) \<Rightarrow>
          (([], [], [], 0, 0), logger ERROR [S ''Unexpected error in get_tasks: '', E e] w1))"

section \<open>The report renderer\<close>

definition nl :: string where
  "nl = [CHR 0x0A]"

text \<open>\<^verbatim>\<open>s.replace(c, "")\<close> for a one-character \<open>c\<close>.\<close>

definition replace_by_empty :: "char \<Rightarrow> string \<Rightarrow> string" where
  "replace_by_empty c s = filter (\<lambda>x. x \<noteq> c) s"

definition plain_line :: "string \<Rightarrow> string" where
  "plain_line task_line = replace_by_empty (CHR '']'') (replace_by_empty (CHR ''['') task_line)"

text \<open>\<^verbatim>\<open>projects_info["projects"].get(project_id, "Unknown Project")\<close>.\<close>

definition project_lookup :: "projects_info \<Rightarrow> string option \<Rightarrow> string" where
  "project_lookup info project_id =
     (case project_id of
        None \<Rightarrow> ''Unknown Project''
      | Some k \<Rightarrow> dict_get (map_of (projects info) k) ''Unknown Project'')"

fun format_task_line :: "projects_info \<Rightarrow> task \<Rightarrow> string" where
  "format_task_line info (task_name, task_url, project_id, status) =
     (let project_name = project_lookup info project_id;
          line0 = ''- [ ] ['' @ task_name @ '']('' @ task_url @ '')'';
          line1 = (if project_name \<noteq> ''Unknown Project''
                   then line0 @ '' (Project: '' @ project_name @ '')'' else line0)
      in if status \<noteq> [] \<and> status \<noteq> ''Unknown''
         then line1 @ '', Status: '' @ status else line1)"

text \<open>The body of the loop over the tasks of a section, with its own handler.\<close>

definition write_task :: "projects_info \<Rightarrow> datetime \<Rightarrow> task \<Rightarrow> world \<Rightarrow> world" where
  "write_task info now task w =
     (let task_line = format_task_line info task in
      case and_then (file_write REPORT_FILE_MD now (task_line @ nl) w)
             (\<lambda>u. file_write REPORT_FILE_TXT now (plain_line task_line @ nl)) of
        (Inr u, w1) \<Rightarrow> w1
      | (Inl e, w1) \<Rightarrow> logger ERROR [S ''Error writing task to report: '', E e] w1)"

definition write_section :: "projects_info \<Rightarrow> datetime \<Rightarrow> string \<Rightarrow> task list \<Rightarrow> world \<Rightarrow> world" where
  "write_section info now title tasks w =
     (if tasks = [] then w
      else
        case and_then
               (and_then (file_write REPORT_FILE_MD now (''## '' @ title @ nl) w)
                  (\<lambda>u. file_write REPORT_FILE_TXT now (title @ '':'' @ nl)))
               (\<lambda>u w1.
                  and_then (file_write REPORT_FILE_MD now nl (fold (write_task info now) tasks w1))
                    (\<lambda>u. file_write REPORT_FILE_TXT now nl)) of
          (Inr u, w2) \<Rightarrow> w2
        | (Inl e, w2) \<Rightarrow> logger ERROR [S ''Error writing section '', S title, S '': '', E e] w2)"

definition report_title :: "datetime \<Rightarrow> string" where
  "report_title now =
     ''# Task Report ('' @ strftime_Y_m_d ''-'' now @ '' '' @ strftime_H_M_S now @ '')'' @ nl @ nl"

definition write_note :: "datetime \<Rightarrow> nat \<Rightarrow> string \<Rightarrow> world \<Rightarrow> unit outcome" where
  "write_note now n what w =
     (if n \<noteq> 0
      then and_then
             (file_write REPORT_FILE_MD now (nl @ ''*Note: '' @ str_nat n @ what @ ''*'' @ nl) w)
             (\<lambda>u. file_write REPORT_FILE_TXT now (nl @ ''Note: '' @ str_nat n @ what @ nl))
      else (Inr (), w))"

text \<open>The \<^verbatim>\<open>with\<close> block: both files are opened for writing, then filled in step.\<close>

definition write_report :: "projects_info \<Rightarrow> datetime \<Rightarrow> buckets \<Rightarrow> world \<Rightarrow> unit outcome" where
  "write_report info now bs w =
     (case bs of
        (high_priority, due_today, overdue, no_due_date_count, older_overdue_count) \<Rightarrow>
          and_then (file_write REPORT_FILE_MD now (report_title now)
                      (open_w REPORT_FILE_TXT now (open_w REPORT_FILE_MD now w)))
            (\<lambda>u w1.
          and_then (file_write REPORT_FILE_TXT now (report_title now) w1)
            (\<lambda>u w2.
          and_then
            (write_note now older_overdue_count '' tasks are overdue for more than 7 days.''
               (write_section info now ''Overdue (Last 7 Days)'' overdue
               (write_section info now ''Due Today'' due_today
               (write_section info now ''High Priority'' high_priority w2))))
            (\<lambda>u. write_note now no_due_date_count '' tasks have no Due.''))))"

section \<open>Rotation and report generation\<close>

definition load_projects_info :: "world \<Rightarrow> projects_info outcome" where
  "load_projects_info w =
     (case map_of (files w) PROJECTS_JSON_FILE of
        None \<Rightarrow> (Inl (FileNotFoundError PROJECTS_JSON_FILE), w)
      | Some f \<Rightarrow> (case data f of Json info \<Rightarrow> (Inr info, w) | Text s \<Rightarrow> (Inl JSONDecodeError, w)))"

definition archive_path :: "string \<Rightarrow> string \<Rightarrow> string" where
  "archive_path timestamp ext = TARGET_DIR @ ''/tasks_report_'' @ timestamp @ ext"

text \<open>Lines 305 to 312 of \<^verbatim>\<open>generate_report\<close>: the rotation of the current pair, then
  the cleanup of the archive.\<close>

definition archive_existing_reports :: "datetime \<Rightarrow> world \<Rightarrow> unit outcome" where
  "archive_existing_reports now w =
     (if os_path_exists REPORT_FILE_MD w
      then (let timestamp = strftime_Y_m_d ''_'' now in
            and_then (shutil_move REPORT_FILE_MD (archive_path timestamp ''.md'') w)
              (\<lambda>u. shutil_move REPORT_FILE_TXT (archive_path timestamp ''.txt'')))
      else (Inr (), w))"

definition rotate_and_cleanup :: "datetime \<Rightarrow> world \<Rightarrow> unit outcome" where
  "rotate_and_cleanup now w =
     and_then (archive_existing_reports now w) (\<lambda>u. cleanup_old_files now)"

text \<open>
  \<^verbatim>\<open>generate_report\<close>: whatever its body raises is logged and raised again, with the
  state the body left.
\<close>

definition generate_report :: "app_context \<Rightarrow> datetime \<Rightarrow> world \<Rightarrow> unit outcome" where
  "generate_report ctx now w =
     (case (case get_tasks ctx now w of
              (bs, w1) \<Rightarrow>
                and_then (load_projects_info (logger DEBUG [S ''Now generating report''] w1))
                  (\<lambda>info w2.
                and_then (rotate_and_cleanup now w2)
                  (\<lambda>u. write_report info now bs))) of
        (Inr u, w3) \<Rightarrow> (Inr (), logger INFO [S ''Task report generated successfully.''] w3)
      | (Inl e, w3) \<Rightarrow> (Inl e, logger ERROR [S ''Error generating report: '', E e] w3))"

text \<open>The main program: the cache is refreshed, then the report is generated.\<close>

definition main :: "app_context \<Rightarrow> datetime \<Rightarrow> world \<Rightarrow> unit outcome" where
  "main ctx now w = and_then (refresh_projects_info ctx now w) (\<lambda>u. generate_report ctx now)"

section \<open>What a query contributes\<close>

text \<open>
  The request of each of the five queries, and what the answer to one request puts into
  its bucket and into the log: the records that normalise, or their number, and nothing
  for an answer that is a failure.
\<close>

definition tasks_request :: "app_context \<Rightarrow> notion_filter \<Rightarrow> string list \<Rightarrow> query_request" where
  "tasks_request ctx flt props =
     \<lparr>database_id = NOTION_TASKS_DB ctx, filter_arg = Some flt, properties_arg = Some props\<rparr>"

definition high_priority_request :: "app_context \<Rightarrow> int \<Rightarrow> query_request" where
  "high_priority_request ctx today =
     tasks_request ctx (high_priority_filter today)
       [''Name'', ''Project'', ''Due'', ''Status'', ''Priority'']"

definition due_today_request :: "app_context \<Rightarrow> int \<Rightarrow> query_request" where
  "due_today_request ctx today =
     tasks_request ctx (due_today_filter today) [''Name'', ''Project'', ''Due'', ''Status'']"

definition overdue_request :: "app_context \<Rightarrow> int \<Rightarrow> query_request" where
  "overdue_request ctx today =
     tasks_request ctx (overdue_filter today (today - 7))
       [''Name'', ''Project'', ''Due'', ''Status'']"

definition no_due_date_request :: "app_context \<Rightarrow> query_request" where
  "no_due_date_request ctx =
     tasks_request ctx no_due_date_filter [''Name'', ''Project'', ''Due'', ''Status'']"

definition older_overdue_request :: "app_context \<Rightarrow> int \<Rightarrow> query_request" where
  "older_overdue_request ctx today =
     tasks_request ctx (older_overdue_filter (today - 7))
       [''Name'', ''Project'', ''Due'', ''Status'']"

definition normalised :: "page list \<Rightarrow> task list" where
  "normalised ps =
     concat (map (\<lambda>p. case process_task_body p of Inl e \<Rightarrow> [] | Inr t \<Rightarrow> [t]) ps)"

definition dropped_log :: "page list \<Rightarrow> (level \<times> fpart list) list" where
  "dropped_log ps =
     concat (map (\<lambda>p. case process_task_body p of
                         Inl e \<Rightarrow> [(ERROR, [S ''Error processing task: '', E e])]
                       | Inr t \<Rightarrow> []) ps)"

definition records_of :: "exn + response \<Rightarrow> task list" where
  "records_of answer =
     (case answer of Inl e \<Rightarrow> [] | Inr found \<Rightarrow> normalised (dict_get (k_results found) []))"

definition count_of :: "exn + response \<Rightarrow> nat" where
  "count_of answer =
     (case answer of Inl e \<Rightarrow> 0 | Inr found \<Rightarrow> length (dict_get (k_results found) []))"

definition records_log :: "string \<Rightarrow> exn + response \<Rightarrow> (level \<times> fpart list) list" where
  "records_log label answer =
     (case answer of
        Inl e \<Rightarrow> [(ERROR, [S (''Error fetching '' @ label @ '' tasks: ''), E e])]
      | Inr found \<Rightarrow>
          dropped_log (dict_get (k_results found) [])
            @ [(INFO, [S ''Found '', N (length (normalised (dict_get (k_results found) []))),
                       S ('' '' @ label @ '' tasks'')])])"

definition count_log :: "string \<Rightarrow> string \<Rightarrow> exn + response \<Rightarrow> (level \<times> fpart list) list" where
  "count_log found_label error_label answer =
     (case answer of
        Inl e \<Rightarrow> [(ERROR, [S (''Error fetching '' @ error_label @ '': ''), E e])]
      | Inr found \<Rightarrow>
          [(INFO, [S ''Found '', N (length (dict_get (k_results found) [])),
                   S ('' '' @ found_label)])])"

text \<open>A state keeps no file that the earlier state did not hold, and changes none.\<close>

definition only_deletes :: "world \<Rightarrow> world \<Rightarrow> bool" where
  "only_deletes w w' =
     (\<forall>p. map_of (files w') p = None \<or> map_of (files w') p = map_of (files w) p)"

text \<open>A path holds a text file that was written at the given time.\<close>

definition freshly_written :: "datetime \<Rightarrow> world \<Rightarrow> string \<Rightarrow> bool" where
  "freshly_written now w p = (\<exists>s. map_of (files w) p = Some \<lparr>mtime = now, data = Text s\<rparr>)"

section \<open>Example values\<close>

definition example_now :: datetime where
  "example_now =
     \<lparr>year = 2024, month = 3, day = 15, hour = 9, minute = 30, second = 5, microsecond = 0\<rparr>"

definition alpha_cache :: projects_info where
  "alpha_cache = \<lparr>generated_at = example_now, projects = [(''p1'', ''Alpha'')]\<rparr>"

definition fix_bug :: task where
  "fix_bug = (''Fix bug'', ''http://x/1'', Some ''p1'', ''High'')"

definition open_reports :: "nat \<Rightarrow> world" where
  "open_reports room =
     \<lparr>files = [(REPORT_FILE_MD, \<lparr>mtime = example_now, data = Text []\<rparr>),
               (REPORT_FILE_TXT, \<lparr>mtime = example_now, data = Text []\<rparr>)],
      disk_free = room, undeletable = [], log = [], issued = []\<rparr>"

definition at_time :: "nat \<Rightarrow> nat \<Rightarrow> nat \<Rightarrow> nat \<Rightarrow> nat \<Rightarrow> datetime" where
  "at_time mo d h mi s =
     \<lparr>year = 2024, month = mo, day = d, hour = h, minute = mi, second = s, microsecond = 0\<rparr>"

definition empty_world :: world where
  "empty_world = \<lparr>files = [], disk_free = 1000, undeletable = [], log = [], issued = []\<rparr>"

definition cache_written_at :: "datetime \<Rightarrow> world" where
  "cache_written_at t =
     empty_world\<lparr>files := [(PROJECTS_JSON_FILE, \<lparr>mtime = t, data = Json alpha_cache\<rparr>)]\<rparr>"

definition titled_project :: "string \<Rightarrow> string \<Rightarrow> page" where
  "titled_project i n =
     \<lparr>page_id = Some i, page_url = None,
      page_properties =
        Some (no_properties
               \<lparr>p_Name := Some (TitleProp (Some [RichText (Some (TextObj (Some n)))]))\<rparr>)\<rparr>"

definition untitled_project :: "string \<Rightarrow> page" where
  "untitled_project i =
     \<lparr>page_id = Some i, page_url = None,
      page_properties = Some (no_properties\<lparr>p_Name := Some (TitleProp (Some []))\<rparr>)\<rparr>"

definition projects_remote :: "page list \<Rightarrow> app_context" where
  "projects_remote ps =
     \<lparr>notion = notion_store ''projects-db'' ps,
      NOTION_TASKS_DB = Some ''tasks-db'', NOTION_PROJECTS_DB = Some ''projects-db''\<rparr>"

definition write_docs :: task where
  "write_docs = (''Write docs'', ''http://x/2'', Some ''p9'', ''In progress'')"

definition projects_request :: "app_context \<Rightarrow> query_request" where
  "projects_request ctx =
     \<lparr>database_id = NOTION_PROJECTS_DB ctx, filter_arg = None, properties_arg = None\<rparr>"

definition nameless_project :: "string \<Rightarrow> page" where
  "nameless_project i =
     \<lparr>page_id = Some i, page_url = None, page_properties = Some no_properties\<rparr>"

text \<open>
  An archive on 2024-03-15 09:30:05: reports last modified eight days, seven and a half
  days, six days, twelve days and thirteen days ago, the twelve days old one
  protected against deletion, beside a current report.
\<close>

definition archive_example :: world where
  "archive_example =
     \<lparr>files =
        [(''target/tasks_report_2024_03_07.md'',
            \<lparr>mtime = at_time 3 7 9 30 5, data = Text ''a''\<rparr>),
         (''target/tasks_report_2024_03_07.txt'',
            \<lparr>mtime = at_time 3 7 21 30 5, data = Text ''b''\<rparr>),
         (''target/tasks_report_2024_03_09.md'',
            \<lparr>mtime = at_time 3 9 9 30 5, data = Text ''c''\<rparr>),
         (''target/tasks_report_2024_03_03.txt'',
            \<lparr>mtime = at_time 3 3 9 30 5, data = Text ''d''\<rparr>),
         (''target/tasks_report_2024_03_02.txt'',
            \<lparr>mtime = at_time 3 2 9 30 5, data = Text ''e''\<rparr>),
         (''target/tasks_report.md'',
            \<lparr>mtime = at_time 3 14 9 30 5, data = Text ''f''\<rparr>)],
      disk_free = 1000, undeletable = [''target/tasks_report_2024_03_03.txt''],
      log = [], issued = []\<rparr>"

text \<open>Tasks of a store, and a client whose query with one given filter times out.\<close>

definition task_page ::
  "string \<Rightarrow> string \<Rightarrow> string option \<Rightarrow> string \<Rightarrow> string \<Rightarrow> int option \<Rightarrow> page" where
  "task_page nm link project st prio due =
     \<lparr>page_id = Some nm, page_url = Some link,
      page_properties = Some
        \<lparr>p_Name = Some (TitleProp (Some [RichText (Some (TextObj (Some nm)))])),
         p_Project = Some (RelationProp (Some
                       (case project of None \<Rightarrow> [] | Some p \<Rightarrow> [RelationRef (Some p)]))),
         p_Status = Some (StatusProp (Some (StatusVal (Some st)))),
         p_Priority = Some (StatusProp (Some (StatusVal (Some prio)))),
         p_Due = Some (DateProp due)\<rparr>\<rparr>"

definition example_today :: int where
  "example_today = 738960"

definition example_tasks :: "page list" where
  "example_tasks =
     [task_page ''Fix bug'' ''http://x/1'' (Some ''p1'') ''High'' ''High'' (Some example_today),
      task_page ''Write docs'' ''http://x/2'' (Some ''p9'') ''In progress'' ''Low''
        (Some (example_today - 3)),
      task_page ''Plan'' ''http://x/3'' None ''Not started'' ''Low'' None,
      task_page ''Archive'' ''http://x/4'' None ''In progress'' ''Low''
        (Some (example_today - 10)),
      task_page ''Ship'' ''http://x/5'' None ''Done'' ''High'' (Some example_today)]"

definition tasks_remote :: "page list \<Rightarrow> app_context" where
  "tasks_remote ps =
     \<lparr>notion = notion_store ''tasks-db'' ps,
      NOTION_TASKS_DB = Some ''tasks-db'', NOTION_PROJECTS_DB = Some ''projects-db''\<rparr>"

definition timing_out_on :: "notion_filter \<Rightarrow> app_context \<Rightarrow> app_context" where
  "timing_out_on flt ctx =
     ctx\<lparr>notion := (\<lambda>req. if filter_arg req = Some flt
                           then Inl (RemoteError ''Request timed out'') else notion ctx req)\<rparr>"

definition first_days :: datetime where
  "first_days =
     \<lparr>year = 1, month = 1, day = 3, hour = 9, minute = 30, second = 5, microsecond = 0\<rparr>"

definition flaky :: app_context where
  "flaky = timing_out_on (due_today_filter example_today) (tasks_remote example_tasks)"

definition yesterday_pair :: world where
  "yesterday_pair =
     empty_world
       \<lparr>files := [(REPORT_FILE_MD, \<lparr>mtime = at_time 3 14 9 30 5, data = Text ''old rich''\<rparr>),
                  (REPORT_FILE_TXT, \<lparr>mtime = at_time 3 14 9 30 5, data = Text ''old plain''\<rparr>),
                  (PROJECTS_JSON_FILE, \<lparr>mtime = at_time 3 15 9 0 0, data = Json alpha_cache\<rparr>)]\<rparr>"



section \<open>Rendering one task\<close>

lemmas time_defs =
  sub_datetime_def toordinal_def days_before_year_def days_before_month_def is_leap_def
  timedelta_hours_def timedelta_days_def days_def

lemmas path_defs =
  REPORT_FILE_MD_def REPORT_FILE_TXT_def PROJECTS_JSON_FILE_def os_path_join_def TARGET_DIR_def

lemma replicate_numeral: "replicate (numeral k) x = x # replicate (pred_numeral k) x"
  by (simp add: numeral_eq_Suc)

lemmas strftime_defs =
  report_title_def strftime_Y_m_d_def strftime_H_M_S_def zero_pad_def str_nat.simps
  digit_char_def replicate_numeral nl_def

lemma strftime_example_now:
  "strftime_Y_m_d ''_'' example_now = ''2024_03_15''"
  "report_title example_now = ''# Task Report (2024-03-15 09:30:05)\<newline>\<newline>''"
  by (simp_all add: strftime_defs example_now_def)

text \<open>
  Claim C2, as the specification words it, fails on the plain line: removing the brackets
  of \<^verbatim>\<open>- [ ] [Fix bug]\<close> leaves the three blanks that surrounded them, so the plain
  line does not start with \<^verbatim>\<open>- Fix bug\<close>.
\<close>

theorem plain_line_single_blank_counterexample:
  "plain_line (format_task_line alpha_cache fix_bug)
     \<noteq> ''- Fix bug(http://x/1) (Project: Alpha), Status: High''"
  by (simp add: alpha_cache_def fix_bug_def project_lookup_def dict_get_def plain_line_def
        replace_by_empty_def)

text \<open>
  Claim C2, amended: for the task \<open>Fix bug\<close> of project \<open>p1\<close>, named \<open>Alpha\<close> in the
  cache, the rich line is \<^verbatim>\<open>- [ ] [Fix bug](http://x/1) (Project: Alpha), Status: High\<close>
  and the plain line is that line without its \<^verbatim>\<open>[\<close> and \<^verbatim>\<open>]\<close>, which is
  \<^verbatim>\<open>-   Fix bug(http://x/1) (Project: Alpha), Status: High\<close> with three blanks after the
  dash; the section written for a bucket that holds this one task is its heading, the
  line and an empty line, in each file.
\<close>

theorem render_fix_bug:
  "format_task_line alpha_cache fix_bug
     = ''- [ ] [Fix bug](http://x/1) (Project: Alpha), Status: High''
   \<and> plain_line (format_task_line alpha_cache fix_bug)
     = ''-   Fix bug(http://x/1) (Project: Alpha), Status: High''
   \<and> plain_line (format_task_line alpha_cache fix_bug)
     = filter (\<lambda>c. c \<noteq> CHR ''['' \<and> c \<noteq> CHR '']'') (format_task_line alpha_cache fix_bug)
   \<and> files (write_section alpha_cache example_now ''Due Today'' [fix_bug] (open_reports 1000))
     = [(REPORT_FILE_MD,
         \<lparr>mtime = example_now,
          data = Text ''## Due Today\<newline>- [ ] [Fix bug](http://x/1) (Project: Alpha), Status: High\<newline>\<newline>''\<rparr>),
        (REPORT_FILE_TXT,
         \<lparr>mtime = example_now,
          data = Text ''Due Today:\<newline>-   Fix bug(http://x/1) (Project: Alpha), Status: High\<newline>\<newline>''\<rparr>)]"
  by (simp add: alpha_cache_def fix_bug_def open_reports_def write_section_def write_task_def
        and_then_def file_write_def append_text_def project_lookup_def dict_get_def
        plain_line_def replace_by_empty_def nl_def path_defs)

section \<open>Unresolved projects\<close>










lemma project_lookup_resolved:
  "map_of (projects info) k = Some pname \<Longrightarrow> project_lookup info (Some k) = pname"
  by (simp add: project_lookup_def dict_get_def)

lemma resolved_project_suffix:
  assumes "map_of (projects info) k = Some pname" and "pname \<noteq> ''Unknown Project''"
  shows "format_task_line info (task_name, task_url, Some k, status)
           = ''- [ ] ['' @ task_name @ '']('' @ task_url @ '')'' @ '' (Project: '' @ pname @ '')''
               @ (if status \<noteq> [] \<and> status \<noteq> ''Unknown'' then '', Status: '' @ status else [])"
  using assms by (simp add: project_lookup_resolved)




section \<open>Freshness of the project cache\<close>

text \<open>
  Claim C3: when the cache file exists and was modified less than 24 hours before now,
  \<^verbatim>\<open>refresh_projects_info\<close> returns normally without sending any request, and the
  file, hence the cache a later load reads, is what it was. When there is no cache file,
  or it was modified 24 hours ago or more, exactly one request goes out: the query of the
  projects database.
\<close>

theorem refresh_queries_only_when_stale:
  "(\<forall>f. map_of (files w) PROJECTS_JSON_FILE = Some f
          \<and> sub_datetime now (mtime f) < timedelta_hours 24
      \<longrightarrow> fst (refresh_projects_info ctx now w) = Inr ()
        \<and> issued (snd (refresh_projects_info ctx now w)) = issued w
        \<and> files (snd (refresh_projects_info ctx now w)) = files w
        \<and> fst (load_projects_info (snd (refresh_projects_info ctx now w)))
            = fst (load_projects_info w))
   \<and> (map_of (files w) PROJECTS_JSON_FILE = None
        \<or> (\<exists>f. map_of (files w) PROJECTS_JSON_FILE = Some f
                \<and> timedelta_hours 24 \<le> sub_datetime now (mtime f))
      \<longrightarrow> issued (snd (refresh_projects_info ctx now w)) = issued w @ [projects_request ctx])"
  by (auto simp: refresh_projects_info_def Let_def logger_def databases_query_def and_then_def
        load_projects_info_def projects_request_def split: sum.splits file_data.splits)

theorem refresh_queries_only_when_stale_witness:
  "map_of (files (cache_written_at (at_time 3 14 9 31 5))) PROJECTS_JSON_FILE
     = Some \<lparr>mtime = at_time 3 14 9 31 5, data = Json alpha_cache\<rparr>
   \<and> sub_datetime example_now (at_time 3 14 9 31 5) = timedelta_hours 24 - 60000000
   \<and> fst (refresh_projects_info (projects_remote []) example_now
             (cache_written_at (at_time 3 14 9 31 5))) = Inr ()
   \<and> issued (snd (refresh_projects_info (projects_remote []) example_now
                     (cache_written_at (at_time 3 14 9 31 5)))) = []
   \<and> files (snd (refresh_projects_info (projects_remote []) example_now
                     (cache_written_at (at_time 3 14 9 31 5))))
       = [(PROJECTS_JSON_FILE, \<lparr>mtime = at_time 3 14 9 31 5, data = Json alpha_cache\<rparr>)]
   \<and> map_of (files (cache_written_at (at_time 3 14 9 29 5))) PROJECTS_JSON_FILE
     = Some \<lparr>mtime = at_time 3 14 9 29 5, data = Json alpha_cache\<rparr>
   \<and> sub_datetime example_now (at_time 3 14 9 29 5) = timedelta_hours 24 + 60000000
   \<and> issued (snd (refresh_projects_info (projects_remote []) example_now
                     (cache_written_at (at_time 3 14 9 29 5))))
       = [projects_request (projects_remote [])]
   \<and> map_of (files empty_world) PROJECTS_JSON_FILE = None
   \<and> issued (snd (refresh_projects_info (projects_remote []) example_now empty_world))
       = [projects_request (projects_remote [])]"
proof -
  have fresh: "map_of (files (cache_written_at (at_time 3 14 9 31 5))) PROJECTS_JSON_FILE
     = Some \<lparr>mtime = at_time 3 14 9 31 5, data = Json alpha_cache\<rparr>"
    and stale: "map_of (files (cache_written_at (at_time 3 14 9 29 5))) PROJECTS_JSON_FILE
     = Some \<lparr>mtime = at_time 3 14 9 29 5, data = Json alpha_cache\<rparr>"
    and absent: "map_of (files empty_world) PROJECTS_JSON_FILE = None"
    by (simp_all add: cache_written_at_def empty_world_def)
  have age1: "sub_datetime example_now (at_time 3 14 9 31 5) = timedelta_hours 24 - 60000000"
    and age2: "sub_datetime example_now (at_time 3 14 9 29 5) = timedelta_hours 24 + 60000000"
    by (simp_all add: time_defs example_now_def at_time_def)
  have w1: "issued (cache_written_at t) = []" "files (cache_written_at t) = [(PROJECTS_JSON_FILE, \<lparr>mtime = t, data = Json alpha_cache\<rparr>)]" for t
    by (simp_all add: cache_written_at_def empty_world_def)
  have w2: "issued empty_world = []" by (simp add: empty_world_def)
  show ?thesis
    using fresh stale absent age1 age2
      refresh_queries_only_when_stale
        [of "cache_written_at (at_time 3 14 9 31 5)" example_now "projects_remote []"]
      refresh_queries_only_when_stale
        [of "cache_written_at (at_time 3 14 9 29 5)" example_now "projects_remote []"]
      refresh_queries_only_when_stale [of empty_world example_now "projects_remote []"]
    by (simp add: w1 w2 timedelta_hours_def)
qed

section \<open>Projects without a usable name\<close>

lemmas refresh_defs = refresh_projects_info_def projects_remote_def notion_store_def
  databases_query_def and_then_def logger_def dict_get_def subscript_def bind_exn_def
  project_name_def no_properties_def empty_world_def

lemma refresh_skips_project_without_name:
  "project_names (\<lparr>page_id = i, page_url = u, page_properties = Some (props\<lparr>p_Name := None\<rparr>)\<rparr> # rest) acc = project_names rest acc"
  by (simp add: subscript_def bind_exn_def)

lemma refresh_with_nameless_project:
  "refresh_projects_info
     (projects_remote [titled_project ''p1'' ''Alpha'', nameless_project ''p2'', titled_project ''p3'' ''Beta''])
     example_now empty_world
   = (Inr (),
      empty_world
        \<lparr>files := [(PROJECTS_JSON_FILE, \<lparr>mtime = example_now, data = Json \<lparr>generated_at = example_now, projects = [(''p1'', ''Alpha''), (''p3'', ''Beta'')]\<rparr>\<rparr>)],
         log := [(INFO, [S ''Fetching projects from Notion API...'']), (INFO, [S ''Projects info refreshed.''])],
         issued := [\<lparr>database_id = Some ''projects-db'', filter_arg = None, properties_arg = None\<rparr>]\<rparr>)"
  by (simp add: refresh_defs titled_project_def nameless_project_def)

text \<open>
  Claim C6 fails on the code for a project whose \<^verbatim>\<open>Name\<close> property is there with an
  empty title, the state of an untitled page: the guard of the comprehension lets the
  entry through, the index \<^verbatim>\<open>[0]\<close> raises, and the refresh ends with
  \<^verbatim>\<open>IndexError\<close> before anything is written, although the entry \<open>p1\<close> beside it has a
  name. An entry with no \<^verbatim>\<open>Name\<close> property at all is skipped, as the two lemmas
  above show.
\<close>

theorem refresh_fails_on_untitled_project:
  "refresh_projects_info
     (projects_remote [titled_project ''p1'' ''Alpha'', untitled_project ''p2''])
     example_now empty_world
   = (Inl IndexError,
      empty_world
        \<lparr>log := [(INFO, [S ''Fetching projects from Notion API...''])],
         issued := [\<lparr>database_id = Some ''projects-db'', filter_arg = None, properties_arg = None\<rparr>]\<rparr>)"
  by (simp add: refresh_defs titled_project_def untitled_project_def)

section \<open>Retention of archived reports\<close>

lemma archive_ages:
  "sub_datetime example_now (at_time 3 7 9 30 5) = timedelta_days 8"
  "sub_datetime example_now (at_time 3 7 21 30 5) = timedelta_days 7 + timedelta_hours 12"
  "sub_datetime example_now (at_time 3 9 9 30 5) = timedelta_days 6"
  "sub_datetime example_now (at_time 3 3 9 30 5) = timedelta_days 12"
  "sub_datetime example_now (at_time 3 2 9 30 5) = timedelta_days 13"
  by (simp_all add: sub_datetime_def toordinal_def days_before_year_def days_before_month_def
        is_leap_def timedelta_hours_def timedelta_days_def example_now_def at_time_def)

text \<open>
  Claim C7 fails on the code for a report between seven and eight days old: the test
  \<^verbatim>\<open>(current_time - file_time).days > 7\<close> counts whole days, so the report modified seven
  and a half days ago stays, although it is more than seven days in the past. The report
  of eight days is deleted, the one of six days stays, and the refused deletion is logged
  and the pass goes on to delete the next file.
\<close>

theorem cleanup_keeps_report_of_seven_and_a_half_days:
  "timedelta_days 7 < sub_datetime example_now (at_time 3 7 21 30 5)
   \<and> cleanup_old_files example_now archive_example
     = (Inr (),
        archive_example
          \<lparr>files :=
             [(''target/tasks_report_2024_03_07.txt'',
                 \<lparr>mtime = at_time 3 7 21 30 5, data = Text ''b''\<rparr>),
              (''target/tasks_report_2024_03_09.md'',
                 \<lparr>mtime = at_time 3 9 9 30 5, data = Text ''c''\<rparr>),
              (''target/tasks_report_2024_03_03.txt'',
                 \<lparr>mtime = at_time 3 3 9 30 5, data = Text ''d''\<rparr>),
              (''target/tasks_report.md'',
                 \<lparr>mtime = at_time 3 14 9 30 5, data = Text ''f''\<rparr>)],
           log :=
             [(INFO, [S ''Deleted old file: '', S ''target/tasks_report_2024_03_07.md'']),
              (ERROR, [S ''Error deleting file '', S ''target/tasks_report_2024_03_03.txt'',
                       S '': '', E (PermissionError ''target/tasks_report_2024_03_03.txt'')]),
              (INFO, [S ''Deleted old file: '', S ''target/tasks_report_2024_03_02.txt''])]\<rparr>)"
  by (simp add: archive_ages cleanup_old_files_def glob_glob_def cleanup_file_def getmtime_def os_remove_def logger_def
       archive_example_def TARGET_DIR_def days_def timedelta_days_def timedelta_hours_def)

section \<open>The classifier\<close>

lemma process_all_eq:
  "process_all ps w = (normalised ps, w\<lparr>log := log w @ dropped_log ps\<rparr>)"
proof (induction ps arbitrary: w)
  case Nil
  show ?case by (simp add: normalised_def dropped_log_def)
next
  case (Cons p ps)
  show ?case
  proof (cases "process_task_body p")
    case (Inl e)
    then show ?thesis
      by (simp add: Cons.IH process_task_def logger_def normalised_def dropped_log_def)
  next
    case (Inr t)
    then show ?thesis
      by (simp add: Cons.IH process_task_def normalised_def dropped_log_def)
  qed
qed

lemma fetch_records_eq:
  "fetch_records ctx flt props label w
     = (records_of (notion ctx (tasks_request ctx flt props)),
        w\<lparr>issued := issued w @ [tasks_request ctx flt props],
          log := log w @ records_log label (notion ctx (tasks_request ctx flt props))\<rparr>)"
  by (cases "notion ctx (tasks_request ctx flt props)")
     (simp_all add: fetch_records_def databases_query_def tasks_request_def[symmetric]
        records_of_def records_log_def logger_def process_all_eq)

lemma fetch_count_eq:
  "fetch_count ctx flt props found_label error_label w
     = (count_of (notion ctx (tasks_request ctx flt props)),
        w\<lparr>issued := issued w @ [tasks_request ctx flt props],
          log := log w
            @ count_log found_label error_label (notion ctx (tasks_request ctx flt props))\<rparr>)"
  by (cases "notion ctx (tasks_request ctx flt props)")
     (simp_all add: fetch_count_def databases_query_def tasks_request_def[symmetric]
        count_of_def count_log_def logger_def Let_def)

lemmas request_defs =
  high_priority_request_def due_today_request_def overdue_request_def
  no_due_date_request_def older_overdue_request_def

lemma get_tasks_body_overflow:
  "toordinal now \<le> 7 \<Longrightarrow> get_tasks_body ctx now w = (Inl OverflowError, w)"
  by (simp add: get_tasks_body_def Let_def date_minus_days_def)

lemma get_tasks_body_result:
  assumes "7 < toordinal now"
  shows "fst (get_tasks_body ctx now w)
           = Inr (records_of (notion ctx (high_priority_request ctx (toordinal now))),
                  records_of (notion ctx (due_today_request ctx (toordinal now))),
                  records_of (notion ctx (overdue_request ctx (toordinal now))),
                  count_of (notion ctx (no_due_date_request ctx)),
                  count_of (notion ctx (older_overdue_request ctx (toordinal now))))"
    and "issued (snd (get_tasks_body ctx now w))
           = issued w @ [high_priority_request ctx (toordinal now),
                         due_today_request ctx (toordinal now),
                         overdue_request ctx (toordinal now),
                         no_due_date_request ctx,
                         older_overdue_request ctx (toordinal now)]"
    and "files (snd (get_tasks_body ctx now w)) = files w"
    and "disk_free (snd (get_tasks_body ctx now w)) = disk_free w"
    and "undeletable (snd (get_tasks_body ctx now w)) = undeletable w"
  using assms
  by (simp_all add: get_tasks_body_def Let_def date_minus_days_def fetch_records_eq
        fetch_count_eq request_defs logger_def)

lemma get_tasks_body_log:
  assumes "7 < toordinal now"
  shows "set (records_log ''high priority''
                (notion ctx (high_priority_request ctx (toordinal now))))
         \<union> set (records_log ''due today'' (notion ctx (due_today_request ctx (toordinal now))))
         \<union> set (records_log ''overdue'' (notion ctx (overdue_request ctx (toordinal now))))
         \<union> set (count_log ''tasks with no due date'' ''tasks with no due date''
                  (notion ctx (no_due_date_request ctx)))
         \<union> set (count_log ''tasks overdue for more than 7 days'' ''older overdue tasks''
                  (notion ctx (older_overdue_request ctx (toordinal now))))
         \<subseteq> set (log (snd (get_tasks_body ctx now w)))"
  using assms
  by (simp add: get_tasks_body_def Let_def date_minus_days_def fetch_records_eq fetch_count_eq
        request_defs logger_def) auto




lemma toordinal_example_now: "toordinal example_now = example_today"
  by (simp add: time_defs example_now_def example_today_def)

lemma toordinal_first_days: "toordinal first_days = 3"
  by (simp add: time_defs first_days_def)

lemmas store_defs =
  tasks_remote_def timing_out_on_def notion_store_def request_defs tasks_request_def
  high_priority_filter_def due_today_filter_def overdue_filter_def no_due_date_filter_def
  older_overdue_filter_def status_of_def date_of_def example_tasks_def task_page_def
  records_of_def count_of_def normalised_def process_task_body_def dict_get_def


text \<open>
  Claim C5: on any day after the first week of the calendar, each bucket that
  \<^verbatim>\<open>get_tasks\<close> returns is what the answer to its own query contributes, whatever the
  other four answers are; all five requests are sent, in order; and a query that fails
  leaves its bucket empty, or its count zero, with its error in the log.
\<close>

theorem query_failures_are_isolated:
  assumes "7 < toordinal now"
  shows
    "fst (get_tasks ctx now w)
       = (records_of (notion ctx (high_priority_request ctx (toordinal now))),
          records_of (notion ctx (due_today_request ctx (toordinal now))),
          records_of (notion ctx (overdue_request ctx (toordinal now))),
          count_of (notion ctx (no_due_date_request ctx)),
          count_of (notion ctx (older_overdue_request ctx (toordinal now))))
     \<and> issued (snd (get_tasks ctx now w))
       = issued w @ [high_priority_request ctx (toordinal now),
                     due_today_request ctx (toordinal now),
                     overdue_request ctx (toordinal now),
                     no_due_date_request ctx,
                     older_overdue_request ctx (toordinal now)]
     \<and> (\<forall>e. notion ctx (high_priority_request ctx (toordinal now)) = Inl e
          \<longrightarrow> fst (fst (get_tasks ctx now w)) = []
            \<and> (ERROR, [S ''Error fetching high priority tasks: '', E e])
                \<in> set (log (snd (get_tasks ctx now w))))
     \<and> (\<forall>e. notion ctx (due_today_request ctx (toordinal now)) = Inl e
          \<longrightarrow> fst (snd (fst (get_tasks ctx now w))) = []
            \<and> (ERROR, [S ''Error fetching due today tasks: '', E e])
                \<in> set (log (snd (get_tasks ctx now w))))
     \<and> (\<forall>e. notion ctx (overdue_request ctx (toordinal now)) = Inl e
          \<longrightarrow> fst (snd (snd (fst (get_tasks ctx now w)))) = []
            \<and> (ERROR, [S ''Error fetching overdue tasks: '', E e])
                \<in> set (log (snd (get_tasks ctx now w))))
     \<and> (\<forall>e. notion ctx (no_due_date_request ctx) = Inl e
          \<longrightarrow> fst (snd (snd (snd (fst (get_tasks ctx now w))))) = 0
            \<and> (ERROR, [S ''Error fetching tasks with no due date: '', E e])
                \<in> set (log (snd (get_tasks ctx now w))))
     \<and> (\<forall>e. notion ctx (older_overdue_request ctx (toordinal now)) = Inl e
          \<longrightarrow> snd (snd (snd (snd (fst (get_tasks ctx now w))))) = 0
            \<and> (ERROR, [S ''Error fetching older overdue tasks: '', E e])
                \<in> set (log (snd (get_tasks ctx now w))))"
proof -
  let ?w0 = "logger INFO [S ''Fetching tasks from Notion API...''] w"
  obtain r w1 where body: "get_tasks_body ctx now ?w0 = (r, w1)" by force
  note res = get_tasks_body_result[OF assms, of ctx ?w0, unfolded body, simplified]
  note lg = get_tasks_body_log[OF assms, of ctx ?w0, unfolded body, simplified]
  have gt: "get_tasks ctx now w = (projr r, w1)"
    using body res(1) by (simp add: get_tasks_def)
  have iss: "issued ?w0 = issued w" by (simp add: logger_def)
  show ?thesis
    unfolding gt using res(1,2) lg
    by (auto simp: iss records_of_def count_of_def records_log_def count_log_def)
qed

lemma flaky_answers:
  "records_of (notion flaky (high_priority_request flaky example_today)) = [fix_bug]"
  "notion flaky (due_today_request flaky example_today) = Inl (RemoteError ''Request timed out'')"
  "records_of (notion flaky (overdue_request flaky example_today)) = [fix_bug, write_docs]"
  "count_of (notion flaky (no_due_date_request flaky)) = 1"
  "count_of (notion flaky (older_overdue_request flaky example_today)) = 1"
  by (simp_all add: flaky_def store_defs fix_bug_def write_docs_def)

lemma records_of_Inl: "records_of (Inl e) = []"
  by (simp add: records_of_def)

lemma unlocated_answers:
  "notion (projects_remote []) (tasks_request (projects_remote []) flt props)
     = Inl (RemoteError ''Could not find database'')"
  by (simp add: projects_remote_def notion_store_def tasks_request_def)

theorem query_failures_are_isolated_witness:
  "7 < toordinal example_now
   \<and> notion flaky (due_today_request flaky (toordinal example_now))
       = Inl (RemoteError ''Request timed out'')
   \<and> fst (get_tasks flaky example_now empty_world) = ([fix_bug], [], [fix_bug, write_docs], 1, 1)
   \<and> issued (snd (get_tasks flaky example_now empty_world))
       = [high_priority_request flaky example_today, due_today_request flaky example_today,
          overdue_request flaky example_today, no_due_date_request flaky,
          older_overdue_request flaky example_today]
   \<and> (ERROR, [S ''Error fetching due today tasks: '', E (RemoteError ''Request timed out'')])
       \<in> set (log (snd (get_tasks flaky example_now empty_world)))
   \<and> notion (projects_remote []) (high_priority_request (projects_remote []) (toordinal example_now))
       = Inl (RemoteError ''Could not find database'')
   \<and> notion (projects_remote []) (due_today_request (projects_remote []) (toordinal example_now))
       = Inl (RemoteError ''Could not find database'')
   \<and> notion (projects_remote []) (overdue_request (projects_remote []) (toordinal example_now))
       = Inl (RemoteError ''Could not find database'')
   \<and> notion (projects_remote []) (no_due_date_request (projects_remote []))
       = Inl (RemoteError ''Could not find database'')
   \<and> notion (projects_remote []) (older_overdue_request (projects_remote []) (toordinal example_now))
       = Inl (RemoteError ''Could not find database'')
   \<and> fst (get_tasks (projects_remote []) example_now empty_world) = ([], [], [], 0, 0)
   \<and> length (issued (snd (get_tasks (projects_remote []) example_now empty_world))) = 5
   \<and> set [(ERROR, [S ''Error fetching high priority tasks: '',
                     E (RemoteError ''Could not find database'')]),
            (ERROR, [S ''Error fetching due today tasks: '',
                     E (RemoteError ''Could not find database'')]),
            (ERROR, [S ''Error fetching overdue tasks: '',
                     E (RemoteError ''Could not find database'')]),
            (ERROR, [S ''Error fetching tasks with no due date: '',
                     E (RemoteError ''Could not find database'')]),
            (ERROR, [S ''Error fetching older overdue tasks: '',
                     E (RemoteError ''Could not find database'')])]
       \<subseteq> set (log (snd (get_tasks (projects_remote []) example_now empty_world)))"
proof -
  have day: "7 < toordinal example_now"
    by (simp add: toordinal_example_now example_today_def)
  have none: "issued empty_world = []" by (simp add: empty_world_def)
  from day none query_failures_are_isolated[OF day, of flaky empty_world]
  have one: "notion flaky (due_today_request flaky (toordinal example_now))
       = Inl (RemoteError ''Request timed out'')
   \<and> fst (get_tasks flaky example_now empty_world) = ([fix_bug], [], [fix_bug, write_docs], 1, 1)
   \<and> issued (snd (get_tasks flaky example_now empty_world))
       = [high_priority_request flaky example_today, due_today_request flaky example_today,
          overdue_request flaky example_today, no_due_date_request flaky,
          older_overdue_request flaky example_today]
   \<and> (ERROR, [S ''Error fetching due today tasks: '', E (RemoteError ''Request timed out'')])
       \<in> set (log (snd (get_tasks flaky example_now empty_world)))"
    by (simp add: toordinal_example_now flaky_answers records_of_Inl)
  from day none query_failures_are_isolated[OF day, of "projects_remote []" empty_world]
  have all: "fst (get_tasks (projects_remote []) example_now empty_world) = ([], [], [], 0, 0)
   \<and> length (issued (snd (get_tasks (projects_remote []) example_now empty_world))) = 5
   \<and> set [(ERROR, [S ''Error fetching high priority tasks: '',
                     E (RemoteError ''Could not find database'')]),
            (ERROR, [S ''Error fetching due today tasks: '',
                     E (RemoteError ''Could not find database'')]),
            (ERROR, [S ''Error fetching overdue tasks: '',
                     E (RemoteError ''Could not find database'')]),
            (ERROR, [S ''Error fetching tasks with no due date: '',
                     E (RemoteError ''Could not find database'')]),
            (ERROR, [S ''Error fetching older overdue tasks: '',
                     E (RemoteError ''Could not find database'')])]
       \<subseteq> set (log (snd (get_tasks (projects_remote []) example_now empty_world)))"
    by (simp add: request_defs unlocated_answers records_of_Inl count_of_def)
  from day one all show ?thesis
    by (simp add: request_defs unlocated_answers)
qed

section \<open>A task that is due today\<close>






section \<open>An error outside the five handlers\<close>

lemma write_report_empty:
  assumes "2 * length (report_title now) \<le> disk_free w"
  shows "fst (write_report info now ([], [], [], 0, 0) w) = Inr ()"
    and "map_of (files (snd (write_report info now ([], [], [], 0, 0) w))) REPORT_FILE_MD
           = Some \<lparr>mtime = now, data = Text (report_title now)\<rparr>"
    and "map_of (files (snd (write_report info now ([], [], [], 0, 0) w))) REPORT_FILE_TXT
           = Some \<lparr>mtime = now, data = Text (report_title now)\<rparr>"
proof -
  from assms have room: "length (report_title now) \<le> disk_free w"
    "length (report_title now) \<le> disk_free w - length (report_title now)"
    by arith+
  show "fst (write_report info now ([], [], [], 0, 0) w) = Inr ()"
    and "map_of (files (snd (write_report info now ([], [], [], 0, 0) w))) REPORT_FILE_MD
           = Some \<lparr>mtime = now, data = Text (report_title now)\<rparr>"
    and "map_of (files (snd (write_report info now ([], [], [], 0, 0) w))) REPORT_FILE_TXT
           = Some \<lparr>mtime = now, data = Text (report_title now)\<rparr>"
    using room
    by (simp_all add: write_report_def write_section_def write_note_def and_then_def
          file_write_def open_w_def map_of_map_entry update_conv' append_text_def path_defs)
qed

text \<open>
  Claim C10: when the body of \<^verbatim>\<open>get_tasks\<close> raises outside the five guarded queries,
  as it does when the date seven days back cannot be formed, \<^verbatim>\<open>get_tasks\<close> still
  returns: three empty sequences and two zero counts, with the error in the log. The
  report written from that result, given room for its title, is the title alone in each
  file: no section and no note.
\<close>

theorem unexpected_error_gives_empty_result:
  assumes "fst (get_tasks_body ctx now (logger INFO [S ''Fetching tasks from Notion API...''] w))
             = Inl e"
  shows "fst (get_tasks ctx now w) = ([], [], [], 0, 0)
       \<and> (ERROR, [S ''Unexpected error in get_tasks: '', E e])
           \<in> set (log (snd (get_tasks ctx now w)))
       \<and> (2 * length (report_title now) \<le> disk_free w2
          \<longrightarrow> fst (write_report info now (fst (get_tasks ctx now w)) w2) = Inr ()
            \<and> map_of (files (snd (write_report info now (fst (get_tasks ctx now w)) w2)))
                REPORT_FILE_MD
                = Some \<lparr>mtime = now, data = Text (report_title now)\<rparr>
            \<and> map_of (files (snd (write_report info now (fst (get_tasks ctx now w)) w2)))
                REPORT_FILE_TXT
                = Some \<lparr>mtime = now, data = Text (report_title now)\<rparr>)"
proof -
  let ?w0 = "logger INFO [S ''Fetching tasks from Notion API...''] w"
  obtain r w1 where body: "get_tasks_body ctx now ?w0 = (r, w1)" by force
  with assms have r: "r = Inl e" by simp
  have gt: "get_tasks ctx now w
              = (([], [], [], 0, 0), logger ERROR [S ''Unexpected error in get_tasks: '', E e] w1)"
    by (simp add: get_tasks_def body r)
  show ?thesis
    unfolding gt using write_report_empty[of now w2 info]
    by (simp add: logger_def)
qed

lemma report_title_first_days:
  "report_title first_days = ''# Task Report (0001-01-03 09:30:05)\<newline>\<newline>''"
  by (simp add: strftime_defs first_days_def)

lemma generate_report_first_days:
  "generate_report (tasks_remote example_tasks) first_days (cache_written_at first_days)
     = (Inr (),
        empty_world
          \<lparr>files :=
             [(PROJECTS_JSON_FILE, \<lparr>mtime = first_days, data = Json alpha_cache\<rparr>),
              (REPORT_FILE_MD, \<lparr>mtime = first_days, data = Text (report_title first_days)\<rparr>),
              (REPORT_FILE_TXT, \<lparr>mtime = first_days, data = Text (report_title first_days)\<rparr>)],
           disk_free := 926,
           log :=
             [(INFO, [S ''Fetching tasks from Notion API...'']),
              (ERROR, [S ''Unexpected error in get_tasks: '', E OverflowError]),
              (DEBUG, [S ''Now generating report'']),
              (INFO, [S ''Task report generated successfully.''])]\<rparr>)"
  by (simp add: generate_report_def get_tasks_def get_tasks_body_overflow toordinal_first_days
        load_projects_info_def rotate_and_cleanup_def archive_existing_reports_def
        os_path_exists_def cleanup_old_files_def glob_glob_def write_report_def
        write_section_def write_note_def and_then_def file_write_def open_w_def append_text_def
        logger_def cache_written_at_def empty_world_def report_title_first_days path_defs)

theorem unexpected_error_gives_empty_result_witness:
  "fst (get_tasks_body (tasks_remote example_tasks) first_days
          (logger INFO [S ''Fetching tasks from Notion API...''] (cache_written_at first_days)))
     = Inl OverflowError
   \<and> fst (get_tasks (tasks_remote example_tasks) first_days (cache_written_at first_days))
       = ([], [], [], 0, 0)
   \<and> (ERROR, [S ''Unexpected error in get_tasks: '', E OverflowError])
       \<in> set (log (snd (get_tasks (tasks_remote example_tasks) first_days
                            (cache_written_at first_days))))
   \<and> 2 * length (report_title first_days) \<le> disk_free (cache_written_at first_days)
   \<and> map_of (files (snd (write_report alpha_cache first_days
              (fst (get_tasks (tasks_remote example_tasks) first_days
                      (cache_written_at first_days)))
              (cache_written_at first_days)))) REPORT_FILE_MD
       = Some \<lparr>mtime = first_days, data = Text (report_title first_days)\<rparr>
   \<and> fst (generate_report (tasks_remote example_tasks) first_days
              (cache_written_at first_days)) = Inr ()"
proof -
  have raised:
    "fst (get_tasks_body (tasks_remote example_tasks) first_days
            (logger INFO [S ''Fetching tasks from Notion API...''] (cache_written_at first_days)))
       = Inl OverflowError"
    by (simp add: get_tasks_body_overflow toordinal_first_days)
  have room: "2 * length (report_title first_days) \<le> disk_free (cache_written_at first_days)"
    by (simp add: report_title_first_days cache_written_at_def empty_world_def)
  note th =
    unexpected_error_gives_empty_result
      [OF raised, of "cache_written_at first_days" alpha_cache]
  from th have empties:
    "fst (get_tasks (tasks_remote example_tasks) first_days (cache_written_at first_days))
       = ([], [], [], 0, 0)"
    by (rule conjunct1)
  from th have logged:
    "(ERROR, [S ''Unexpected error in get_tasks: '', E OverflowError])
       \<in> set (log (snd (get_tasks (tasks_remote example_tasks) first_days
                            (cache_written_at first_days))))"
    by (rule conjunct1[OF conjunct2])
  from th[THEN conjunct2, THEN conjunct2, THEN mp, OF room] have written:
    "map_of (files (snd (write_report alpha_cache first_days
              (fst (get_tasks (tasks_remote example_tasks) first_days
                      (cache_written_at first_days)))
              (cache_written_at first_days)))) REPORT_FILE_MD
       = Some \<lparr>mtime = first_days, data = Text (report_title first_days)\<rparr>"
    by (rule conjunct1[OF conjunct2])
  have generated:
    "fst (generate_report (tasks_remote example_tasks) first_days
            (cache_written_at first_days)) = Inr ()"
    by (simp add: generate_report_first_days)
  from raised empties logged room written generated show ?thesis by blast
qed

section \<open>Rotation\<close>

lemma archive_path_not_current:
  "archive_path timestamp ext \<noteq> REPORT_FILE_MD"
  "archive_path timestamp ext \<noteq> REPORT_FILE_TXT"
  by (simp_all add: archive_path_def path_defs)

lemma report_paths_differ: "REPORT_FILE_MD \<noteq> REPORT_FILE_TXT"
  by (simp add: path_defs)

lemmas distinct_paths =
  archive_path_not_current archive_path_not_current[symmetric]
  report_paths_differ report_paths_differ[symmetric]

lemma map_of_delete: "map_of (AList.delete k al) p = (if p = k then None else map_of al p)"
  by (simp add: delete_conv')

lemma map_of_update: "map_of (AList.update k v al) p = (if p = k then Some v else map_of al p)"
  by (simp add: update_conv')

lemma archive_leaves_no_current:
  "map_of (files (snd (archive_existing_reports now w))) REPORT_FILE_MD = None"
  by (auto simp: archive_existing_reports_def os_path_exists_def shutil_move_def and_then_def
        Let_def map_of_delete map_of_update distinct_paths
      split: option.splits)

lemma only_deletes_refl: "only_deletes w w"
  by (simp add: only_deletes_def)

lemma only_deletes_trans: "only_deletes w w1 \<Longrightarrow> only_deletes w1 w2 \<Longrightarrow> only_deletes w w2"
  unfolding only_deletes_def by metis

lemma cleanup_file_only_deletes: "only_deletes w (snd (cleanup_file t p w))"
  by (auto simp: cleanup_file_def getmtime_def os_remove_def logger_def only_deletes_def
        map_of_delete split: option.splits)

lemma for_each_only_deletes:
  assumes "\<And>x w. only_deletes w (snd (body x w))"
  shows "only_deletes w (snd (for_each body xs w))"
proof (induction xs arbitrary: w)
  case Nil
  show ?case by (simp add: only_deletes_refl)
next
  case (Cons x xs)
  obtain r w1 where step: "body x w = (r, w1)" by force
  with assms[of w x] have first: "only_deletes w w1" by simp
  show ?case
  proof (cases r)
    case (Inl e)
    with step first show ?thesis by simp
  next
    case (Inr u)
    with step first Cons.IH[of w1] show ?thesis
      by (auto intro: only_deletes_trans)
  qed
qed

lemma cleanup_only_deletes: "only_deletes w (snd (cleanup_old_files t w))"
  unfolding cleanup_old_files_def
  by (intro for_each_only_deletes cleanup_file_only_deletes)

lemma rotate_leaves_no_current:
  "map_of (files (snd (rotate_and_cleanup now w))) REPORT_FILE_MD = None"
proof -
  obtain r wa where arch: "archive_existing_reports now w = (r, wa)" by force
  from archive_leaves_no_current[of now w] arch
  have gone: "map_of (files wa) REPORT_FILE_MD = None" by simp
  show ?thesis
  proof (cases r)
    case (Inl e)
    with arch gone show ?thesis by (simp add: rotate_and_cleanup_def and_then_def)
  next
    case (Inr u)
    with arch have "snd (rotate_and_cleanup now w) = snd (cleanup_old_files now wa)"
      by (simp add: rotate_and_cleanup_def and_then_def)
    with cleanup_only_deletes[of wa now] gone show ?thesis
      by (auto simp: only_deletes_def)
  qed
qed

lemma rotate_yesterday_pair:
  assumes "files w = files yesterday_pair"
  shows "rotate_and_cleanup example_now w
     = (Inr (),
        w\<lparr>files :=
            [(PROJECTS_JSON_FILE, \<lparr>mtime = at_time 3 15 9 0 0, data = Json alpha_cache\<rparr>),
             (''target/tasks_report_2024_03_15.md'',
                \<lparr>mtime = at_time 3 14 9 30 5, data = Text ''old rich''\<rparr>),
             (''target/tasks_report_2024_03_15.txt'',
                \<lparr>mtime = at_time 3 14 9 30 5, data = Text ''old plain''\<rparr>)]\<rparr>)"
proof -
  have age: "sub_datetime example_now (at_time 3 14 9 30 5) = timedelta_days 1"
    by (simp add: time_defs example_now_def at_time_def)
  have fs: "files w = [(REPORT_FILE_MD, \<lparr>mtime = at_time 3 14 9 30 5, data = Text ''old rich''\<rparr>),
                  (REPORT_FILE_TXT, \<lparr>mtime = at_time 3 14 9 30 5, data = Text ''old plain''\<rparr>),
                  (PROJECTS_JSON_FILE, \<lparr>mtime = at_time 3 15 9 0 0, data = Json alpha_cache\<rparr>)]"
    using assms by (simp add: yesterday_pair_def empty_world_def)
  have arch: "archive_existing_reports example_now w
     = (Inr (),
        w\<lparr>files :=
            [(PROJECTS_JSON_FILE, \<lparr>mtime = at_time 3 15 9 0 0, data = Json alpha_cache\<rparr>),
             (''target/tasks_report_2024_03_15.md'',
                \<lparr>mtime = at_time 3 14 9 30 5, data = Text ''old rich''\<rparr>),
             (''target/tasks_report_2024_03_15.txt'',
                \<lparr>mtime = at_time 3 14 9 30 5, data = Text ''old plain''\<rparr>)]\<rparr>)"
    by (simp add: archive_existing_reports_def os_path_exists_def shutil_move_def and_then_def
          archive_path_def strftime_example_now fs path_defs)
  show ?thesis
    unfolding rotate_and_cleanup_def arch
    by (simp add: and_then_def cleanup_old_files_def glob_glob_def cleanup_file_def getmtime_def
          age days_def timedelta_days_def path_defs)
qed


lemma second_rotation_same_day:
  "files (snd (rotate_and_cleanup (at_time 3 15 18 0 0)
                 (snd (rotate_and_cleanup example_now yesterday_pair))))
     = files (snd (rotate_and_cleanup example_now yesterday_pair))"
proof -
  have age: "sub_datetime (at_time 3 15 18 0 0) (at_time 3 14 9 30 5)
               = timedelta_days 1 + 30595000000"
    by (simp add: time_defs at_time_def)
  have first: "rotate_and_cleanup example_now yesterday_pair
     = (Inr (),
        yesterday_pair\<lparr>files :=
            [(PROJECTS_JSON_FILE, \<lparr>mtime = at_time 3 15 9 0 0, data = Json alpha_cache\<rparr>),
             (''target/tasks_report_2024_03_15.md'',
                \<lparr>mtime = at_time 3 14 9 30 5, data = Text ''old rich''\<rparr>),
             (''target/tasks_report_2024_03_15.txt'',
                \<lparr>mtime = at_time 3 14 9 30 5, data = Text ''old plain''\<rparr>)]\<rparr>)"
    by (rule rotate_yesterday_pair) simp
  show ?thesis
    unfolding first
    by (simp add: rotate_and_cleanup_def archive_existing_reports_def os_path_exists_def
          and_then_def cleanup_old_files_def glob_glob_def cleanup_file_def getmtime_def
          age days_def timedelta_days_def path_defs)
qed

text \<open>
  Claim C8: after one call of the rotation and cleanup step, whatever its outcome, there
  is no current rich report; so a second call, on the same day or later, with no report
  written in between, rotates nothing: it is the cleanup alone, and every file it leaves
  is a file the first call left, unchanged. No second archive copy comes into being.
\<close>

theorem second_rotation_moves_nothing:
  "map_of (files (snd (rotate_and_cleanup now1 w))) REPORT_FILE_MD = None
   \<and> archive_existing_reports now2 (snd (rotate_and_cleanup now1 w))
       = (Inr (), snd (rotate_and_cleanup now1 w))
   \<and> rotate_and_cleanup now2 (snd (rotate_and_cleanup now1 w))
       = cleanup_old_files now2 (snd (rotate_and_cleanup now1 w))
   \<and> only_deletes (snd (rotate_and_cleanup now1 w))
        (snd (rotate_and_cleanup now2 (snd (rotate_and_cleanup now1 w))))"
proof -
  let ?w1 = "snd (rotate_and_cleanup now1 w)"
  have absent: "map_of (files ?w1) REPORT_FILE_MD = None"
    by (rule rotate_leaves_no_current)
  then have idle: "archive_existing_reports now2 ?w1 = (Inr (), ?w1)"
    by (simp add: archive_existing_reports_def os_path_exists_def)
  then have same: "rotate_and_cleanup now2 ?w1 = cleanup_old_files now2 ?w1"
    by (simp add: rotate_and_cleanup_def and_then_def)
  from absent idle same cleanup_only_deletes[of ?w1 now2] show ?thesis by simp
qed

section \<open>Writing the report in place\<close>

lemma freshly_written_logger [simp]:
  "freshly_written now (logger lv msg w) p = freshly_written now w p"
  by (simp add: freshly_written_def logger_def)



















end
